theory Spec2Isabelle
  imports Complex_Main
begin

section \<open>The dashboard component \<^verbatim>\<open>App\<close> of \<^verbatim>\<open>src/App.js\<close>\<close>

text \<open>
  \<^verbatim>\<open>App\<close> is a React function component. Its state is five \<^verbatim>\<open>useState\<close> cells; two
  effects touch the world outside: one fetches \<^verbatim>\<open>/dashboard_data.json\<close> once, one writes
  the theme to \<^verbatim>\<open>localStorage\<close> whenever the theme changes. The embedding passes the
  cells as a record, the browser's store as a second record, and gives every
  \<^verbatim>\<open>throw\<close> of the JavaScript as a value of the type \<open>exn\<close>.
\<close>

subsection \<open>JavaScript values\<close>

text \<open>
  What \<^verbatim>\<open>res.json()\<close> resolves to, and what property reads on it give. A string is its
  text in UTF-8, one \<open>char\<close> per byte (for ASCII text, one per code unit). A
  number is the real it denotes (both zeros are \<open>0\<close>). An object is the list of its own
  properties, in the order \<^verbatim>\<open>Object.keys\<close> lists them, each key once.
\<close>

datatype jsval =
    JUndefined
  | JNull
  | JBool bool
  | JNum real
  | JStr string
  | JArr "jsval list"
  | JObj "(string \<times> jsval) list"

datatype exn =
    NetworkError  \<comment> \<open>\<^verbatim>\<open>fetch\<close> rejects\<close>
  | LoadError     \<comment> \<open>\<^verbatim>\<open>new Error("Failed to load dashboard_data.json")\<close>\<close>
  | SyntaxError   \<comment> \<open>\<^verbatim>\<open>res.json()\<close> rejects\<close>
  | TypeError     \<comment> \<open>a property of \<^verbatim>\<open>null\<close> or \<^verbatim>\<open>undefined\<close>, a call of a non-function\<close>
  | StorageError  \<comment> \<open>\<^verbatim>\<open>localStorage\<close> refuses the access\<close>

text \<open>The condition of \<^verbatim>\<open>if (v)\<close>, \<^verbatim>\<open>v && e\<close> and \<^verbatim>\<open>v || e\<close>.\<close>

fun truthy :: "jsval \<Rightarrow> bool" where
  "truthy JUndefined = False"
| "truthy JNull = False"
| "truthy (JBool b) = b"
| "truthy (JNum x) = (x \<noteq> 0)"
| "truthy (JStr s) = (s \<noteq> [])"
| "truthy (JArr xs) = True"
| "truthy (JObj kvs) = True"

text \<open>
  \<^verbatim>\<open>v.k\<close> for the property names the component reads (\<^verbatim>\<open>summary\<close>,
  \<^verbatim>\<open>accident_by_time\<close>, \<^verbatim>\<open>Var1\<close>, \<^verbatim>\<open>Freq\<close>, \<^verbatim>\<open>numericStats\<close>, \<^verbatim>\<open>mean\<close>, \<^verbatim>\<open>sd\<close>): none of
  them is inherited from a prototype, so only an object's own property gives a value;
  reading from \<^verbatim>\<open>null\<close> or \<^verbatim>\<open>undefined\<close> throws.
\<close>

fun get_prop :: "jsval \<Rightarrow> string \<Rightarrow> exn + jsval" where
  "get_prop JUndefined k = Inl TypeError"
| "get_prop JNull k = Inl TypeError"
| "get_prop (JObj kvs) k = Inr (case map_of kvs k of None \<Rightarrow> JUndefined | Some v \<Rightarrow> v)"
| "get_prop v k = Inr JUndefined"

subsection \<open>The component's state\<close>

text \<open>An element of the chart data: \<^verbatim>\<open>{ time: item.Var1, accidents: item.Freq }\<close>.\<close>

record point =
  time :: jsval
  accidents :: jsval

text \<open>The five \<^verbatim>\<open>useState\<close> cells (lines 21 to 33).\<close>

record app_state =
  theme :: string
  data :: "point list"
  summary :: jsval
  loading :: bool
  error :: string

text \<open>
  The initial values of lines 30 to 33, with the theme the initialiser of line 21
  returned.
\<close>

definition init_state :: "string \<Rightarrow> app_state" where
  "init_state t = \<lparr>theme = t, data = [], summary = JNull, loading = True, error = []\<rparr>"

subsection \<open>The fetch effect (lines 36 to 58)\<close>

text \<open>
  What \<^verbatim>\<open>fetch\<close> settles with: a rejection, or a response with its \<^verbatim>\<open>ok\<close> flag and what
  \<^verbatim>\<open>res.json()\<close> would settle with (\<open>None\<close> when the body does not parse).
\<close>

record response =
  ok :: bool
  json_body :: "jsval option"

datatype fetch_outcome = Rejected | Resolved response

text \<open>The first \<^verbatim>\<open>then\<close> (lines 38 to 41).\<close>

definition check_response :: "response \<Rightarrow> exn + jsval" where
  "check_response res =
     (if \<not> ok res then Inl LoadError
      else case json_body res of None \<Rightarrow> Inl SyntaxError | Some json \<Rightarrow> Inr json)"

text \<open>The callback of \<^verbatim>\<open>map\<close> (lines 45 to 48), over the elements in order.\<close>

fun map_items :: "jsval list \<Rightarrow> exn + point list" where
  "map_items [] = Inr []"
| "map_items (item # rest) =
     (case get_prop item ''Var1'' of
        Inl e \<Rightarrow> Inl e
      | Inr t \<Rightarrow>
          (case get_prop item ''Freq'' of
             Inl e \<Rightarrow> Inl e
           | Inr f \<Rightarrow>
               (case map_items rest of
                  Inl e \<Rightarrow> Inl e
                | Inr ps \<Rightarrow> Inr (\<lparr>time = t, accidents = f\<rparr> # ps))))"

text \<open>
  \<^verbatim>\<open>v.map(...)\<close> for a truthy \<open>v\<close>: only an array has a function \<^verbatim>\<open>map\<close>; on any other
  value the call throws (a parsed object's own \<^verbatim>\<open>map\<close> is no function either).
\<close>

fun call_map :: "jsval \<Rightarrow> exn + point list" where
  "call_map (JArr xs) = map_items xs"
| "call_map v = Inl TypeError"

text \<open>
  The second \<^verbatim>\<open>then\<close> (lines 42 to 52). The setters called before a throw have taken
  effect, so the state comes back beside the exception.
\<close>

definition apply_json :: "jsval \<Rightarrow> app_state \<Rightarrow> exn option \<times> app_state" where
  "apply_json json s =
     (case get_prop json ''summary'' of
        Inl e \<Rightarrow> (Some e, s)
      | Inr sm \<Rightarrow>
          (let s1 = s\<lparr>summary := sm\<rparr> in
           case get_prop json ''accident_by_time'' of
             Inl e \<Rightarrow> (Some e, s1)
           | Inr abt \<Rightarrow>
               if truthy abt then
                 (case call_map abt of
                    Inl e \<Rightarrow> (Some e, s1)
                  | Inr chartData \<Rightarrow> (None, s1\<lparr>data := chartData, loading := False\<rparr>))
               else (None, s1\<lparr>loading := False\<rparr>)))"

text \<open>
  The message of line 55: U+26A0 and U+FE0F in UTF-8, then the ASCII text.
\<close>

definition error_message :: string where
  "error_message =
     [CHR 0xE2, CHR 0x9A, CHR 0xA0, CHR 0xEF, CHR 0xB8, CHR 0x8F] @
     '' Unable to load dashboard_data.json. Please check the file path.''"

text \<open>
  The \<^verbatim>\<open>catch\<close> (lines 53 to 57). The first component is what went to
  \<^verbatim>\<open>console.error\<close>.
\<close>

definition catch_handler :: "exn \<Rightarrow> app_state \<Rightarrow> exn option \<times> app_state" where
  "catch_handler err s = (Some err, s\<lparr>error := error_message, loading := False\<rparr>)"

text \<open>The chain \<^verbatim>\<open>fetch(...).then(...).then(...).catch(...)\<close>, once \<^verbatim>\<open>fetch\<close> has settled.\<close>

definition fetch_effect :: "fetch_outcome \<Rightarrow> app_state \<Rightarrow> exn option \<times> app_state" where
  "fetch_effect r s =
     (case r of
        Rejected \<Rightarrow> catch_handler NetworkError s
      | Resolved res \<Rightarrow>
          (case check_response res of
             Inl e \<Rightarrow> catch_handler e s
           | Inr json \<Rightarrow>
               (case apply_json json s of
                  (Some e, s') \<Rightarrow> catch_handler e s'
                | (None, s') \<Rightarrow> (None, s'))))"

subsection \<open>Which view the state selects (lines 84 to 88)\<close>

text \<open>
  The render shows \<^verbatim>\<open>loading ? ... : error ? ... : ...\<close>: the loading notice while
  \<^verbatim>\<open>loading\<close> holds, else the error text when \<^verbatim>\<open>error\<close> is a non-empty string, else
  the dashboard built from \<^verbatim>\<open>summary\<close> and \<^verbatim>\<open>data\<close>.
\<close>

datatype load_state = Loading | Error string | Ready jsval "point list"

definition load_state_of :: "app_state \<Rightarrow> load_state" where
  "load_state_of s =
     (if loading s then Loading
      else if error s \<noteq> [] then Error (error s)
      else Ready (summary s) (data s))"

subsection \<open>The theme (lines 21 to 27, 61 to 67)\<close>

text \<open>
  The browser as the component touches it: the entries of \<^verbatim>\<open>localStorage\<close>, whether a
  read or a write of it throws (storage denied, quota exceeded), and whether
  \<^verbatim>\<open>document.body\<close> carries the class \<^verbatim>\<open>dark-mode\<close>.
\<close>

record browser =
  stored :: "string \<rightharpoonup> string"
  read_fails :: bool
  write_fails :: bool
  dark_mode :: bool

definition getItem :: "browser \<Rightarrow> string \<Rightarrow> exn + string option" where
  "getItem b k = (if read_fails b then Inl StorageError else Inr (stored b k))"

definition setItem :: "browser \<Rightarrow> string \<Rightarrow> string \<Rightarrow> exn + browser" where
  "setItem b k v =
     (if write_fails b then Inl StorageError else Inr (b\<lparr>stored := (stored b)(k \<mapsto> v)\<rparr>))"

text \<open>
  The initialiser of \<^verbatim>\<open>useState\<close> (lines 21 to 27):
  \<^verbatim>\<open>try { return localStorage.getItem("theme") || "light"; } catch { return "light"; }\<close>.
\<close>

definition init_theme :: "browser \<Rightarrow> string" where
  "init_theme b =
     (case getItem b ''theme'' of
        Inl e \<Rightarrow> ''light''
      | Inr None \<Rightarrow> ''light''
      | Inr (Some v) \<Rightarrow> if v \<noteq> [] then v else ''light'')"

text \<open>
  The effect on \<^verbatim>\<open>[theme]\<close> (lines 61 to 64): the class is set first, then the store is
  written, with no \<^verbatim>\<open>try\<close> around either; an exception leaves the effect.
\<close>

definition theme_effect :: "string \<Rightarrow> browser \<Rightarrow> exn option \<times> browser" where
  "theme_effect t b =
     (let b1 = b\<lparr>dark_mode := (t = ''dark'')\<rparr> in
      case setItem b1 ''theme'' t of
        Inl e \<Rightarrow> (Some e, b1)
      | Inr b2 \<Rightarrow> (None, b2))"

text \<open>Line 67: \<^verbatim>\<open>(t) => (t === "light" ? "dark" : "light")\<close>.\<close>

definition toggleTheme :: "string \<Rightarrow> string" where
  "toggleTheme t = (if t = ''light'' then ''dark'' else ''light'')"

text \<open>
  The first render: the state cells are initialised, then the theme effect runs. (The
  fetch effect starts here too; \<open>fetch_effect\<close> is what it does once the request has
  settled.)
\<close>

definition mount :: "browser \<Rightarrow> exn option \<times> app_state \<times> browser" where
  "mount b =
     (let s = init_state (init_theme b) in
      case theme_effect (theme s) b of (e, b') \<Rightarrow> (e, s, b'))"

text \<open>
  A click on the button: \<^verbatim>\<open>setTheme\<close> with the updater, and after the re-render the
  theme effect, which runs when its dependency \<^verbatim>\<open>theme\<close> has changed.
\<close>

definition click_toggle :: "app_state \<times> browser \<Rightarrow> exn option \<times> app_state \<times> browser" where
  "click_toggle sb =
     (case sb of (s, b) \<Rightarrow>
        (let s' = s\<lparr>theme := toggleTheme (theme s)\<rparr> in
         if theme s' = theme s then (None, s', b)
         else case theme_effect (theme s') b of (e, b') \<Rightarrow> (e, s', b')))"

subsection \<open>The render (lines 84 to 218)\<close>

text \<open>
  \<^verbatim>\<open>summary?.k\<close> and \<^verbatim>\<open>v ?? d\<close>, as the stat cards use them (lines 94 to 109).
\<close>

fun opt_chain :: "jsval \<Rightarrow> string \<Rightarrow> jsval" where
  "opt_chain JUndefined k = JUndefined"
| "opt_chain JNull k = JUndefined"
| "opt_chain (JObj kvs) k = (case map_of kvs k of None \<Rightarrow> JUndefined | Some v \<Rightarrow> v)"
| "opt_chain v k = JUndefined"

definition nullish :: "jsval \<Rightarrow> jsval \<Rightarrow> jsval" where
  "nullish v d = (if v = JUndefined \<or> v = JNull then d else v)"

definition stat_card :: "jsval \<Rightarrow> string \<Rightarrow> jsval" where
  "stat_card sm k = nullish (opt_chain sm k) (JStr ''-'')"

text \<open>The decimal text of an array index, as \<^verbatim>\<open>Object.keys\<close> gives it.\<close>

fun index_key :: "nat \<Rightarrow> string" where
  "index_key n =
     (if n < 10 then [char_of (48 + n)]
      else index_key (n div 10) @ [char_of (48 + n mod 10)])"

declare index_key.simps [simp del]

text \<open>
  The indices of a JavaScript string count its UTF-16 code units, and \<open>s[i]\<close> is the
  string of the one unit at \<open>i\<close>. From the UTF-8 text: a sequence of one, two or three
  bytes is one unit; a sequence of four bytes is a code point above U+FFFF, which is
  two units, a high and a low surrogate. A lone surrogate \<open>u\<close> has no UTF-8 text of its
  own; it is written as the three bytes that the pattern of three-byte sequences gives
  for \<open>u\<close>. The text is taken to be well-formed UTF-8 (a stray continuation byte counts
  as a unit).
\<close>

definition surrogate_text :: "nat \<Rightarrow> string" where
  "surrogate_text u =
     [char_of (224 + u div 4096), char_of (128 + (u div 64) mod 64), char_of (128 + u mod 64)]"

function utf16_units :: "string \<Rightarrow> string list" where
  "utf16_units [] = []"
| "utf16_units (c # cs) =
     (let n = (of_char c :: nat) in
      if n < 192 then [c] # utf16_units cs
      else if n < 224 then (c # take 1 cs) # utf16_units (drop 1 cs)
      else if n < 240 then (c # take 2 cs) # utf16_units (drop 2 cs)
      else
        (let b = map of_char (take 3 cs) @ [0, 0, 0];
             cp = (n mod 8) * 262144 + (b ! 0 mod 64) * 4096 + (b ! 1 mod 64) * 64
                  + (b ! 2 mod 64);
             v = cp - 65536
         in surrogate_text (55296 + v div 1024) # surrogate_text (56320 + v mod 1024)
              # utf16_units (drop 3 cs)))"
  by pat_completeness auto
termination
  by (relation "measure length") auto

text \<open>
  \<^verbatim>\<open>Object.keys(v).map((k) => ... v[k] ...)\<close>: each own key of \<open>v\<close> with the value \<open>v[k]\<close>.
  \<^verbatim>\<open>Object.keys\<close> throws on \<^verbatim>\<open>undefined\<close> and \<^verbatim>\<open>null\<close>, lists the indices of an array and
  of a string (one per code unit), and nothing for a number or a boolean.
\<close>

fun own_entries :: "jsval \<Rightarrow> exn + (string \<times> jsval) list" where
  "own_entries JUndefined = Inl TypeError"
| "own_entries JNull = Inl TypeError"
| "own_entries (JBool b) = Inr []"
| "own_entries (JNum x) = Inr []"
| "own_entries (JStr s) =
     Inr (map (\<lambda>i. (index_key i, JStr (utf16_units s ! i))) [0..<length (utf16_units s)])"
| "own_entries (JArr xs) = Inr (map (\<lambda>i. (index_key i, xs ! i)) [0..<length xs])"
| "own_entries (JObj kvs) =
     Inr (map (\<lambda>k. (k, case map_of kvs k of None \<Rightarrow> JUndefined | Some v \<Rightarrow> v)) (map fst kvs))"

text \<open>
  Whether \<^verbatim>\<open>Number(v)\<close> throws. It does when the conversion of an object to a primitive
  finds no callable \<^verbatim>\<open>toString\<close>: a parsed object with an own property \<^verbatim>\<open>toString\<close>, or
  an array that holds one (the array's text joins the texts of its elements).
\<close>

fun to_number_throws :: "jsval \<Rightarrow> bool" where
  "to_number_throws (JObj kvs) = (map_of kvs ''toString'' \<noteq> None)"
| "to_number_throws (JArr xs) = list_ex to_number_throws xs"
| "to_number_throws v = False"

text \<open>
  One entry of the numeric grid (lines 118 to 124): the key, and the two values that
  \<^verbatim>\<open>Number(...).toFixed(2)\<close> formats. The formatted text is left out of the model.
\<close>

record num_stat =
  num_label :: string
  mean_of :: jsval
  sd_of :: jsval

fun stat_rows :: "(string \<times> jsval) list \<Rightarrow> exn + num_stat list" where
  "stat_rows [] = Inr []"
| "stat_rows ((k, e) # rest) =
     (case get_prop e ''mean'' of
        Inl x \<Rightarrow> Inl x
      | Inr m \<Rightarrow>
          if to_number_throws m then Inl TypeError
          else
            (case get_prop e ''sd'' of
               Inl x \<Rightarrow> Inl x
             | Inr d \<Rightarrow>
                 if to_number_throws d then Inl TypeError
                 else
                   (case stat_rows rest of
                      Inl x \<Rightarrow> Inl x
                    | Inr rows \<Rightarrow> Inr (\<lparr>num_label = k, mean_of = m, sd_of = d\<rparr> # rows))))"

text \<open>
  Lines 116 to 125: \<^verbatim>\<open>summary && Object.keys(summary.numericStats).map(...)\<close>. A falsy
  \<^verbatim>\<open>summary\<close> is the value of the expression itself; a truthy one has its
  \<^verbatim>\<open>numericStats\<close> read and handed to \<^verbatim>\<open>Object.keys\<close>, absent or not.
\<close>

datatype numeric_grid = Falsy jsval | Rows "num_stat list"

definition numeric_stats :: "jsval \<Rightarrow> exn + numeric_grid" where
  "numeric_stats sm =
     (if \<not> truthy sm then Inr (Falsy sm)
      else
        case get_prop sm ''numericStats'' of
          Inl e \<Rightarrow> Inl e
        | Inr ns \<Rightarrow>
            (case own_entries ns of
               Inl e \<Rightarrow> Inl e
             | Inr es \<Rightarrow>
                 (case stat_rows es of
                    Inl e \<Rightarrow> Inl e
                  | Inr rows \<Rightarrow> Inr (Rows rows))))"

text \<open>Line 69, and the fill of the pie's cells (lines 164 to 169).\<close>

definition COLORS :: "string list" where
  "COLORS = [''#0088FE'', ''#f91ea5'', ''#FFBB28'', ''#ff9a42'']"

definition pie_cells :: "point list \<Rightarrow> string list" where
  "pie_cells ds = map (\<lambda>index. COLORS ! (index mod length COLORS)) [0..<length ds]"

text \<open>
  What the component hands to React for the main content: the four stat cards, the
  numeric grid, the data of the three charts and the pie's fills. What React and the
  chart library draw from it is outside the component.
\<close>

record dashboard =
  cards :: "jsval list"
  numeric :: numeric_grid
  chart_data :: "point list"
  cell_fills :: "string list"

datatype view = LoadingView | ErrorView string | ReadyView dashboard

definition render :: "app_state \<Rightarrow> exn + view" where
  "render s =
     (if loading s then Inr LoadingView
      else if error s \<noteq> [] then Inr (ErrorView (error s))
      else
        case numeric_stats (summary s) of
          Inl e \<Rightarrow> Inl e
        | Inr grid \<Rightarrow>
            Inr (ReadyView
              \<lparr>cards = map (stat_card (summary s))
                 [''rowsLoaded'', ''rowsUsed'', ''trainedSamples'', ''featureVectorLength''],
               numeric = grid,
               chart_data = data s,
               cell_fills = pie_cells (data s)\<rparr>))"

subsection \<open>The shape of a time-series record\<close>

text \<open>
  An element of \<^verbatim>\<open>accident_by_time\<close> as the data file documents it: an object with the
  properties \<^verbatim>\<open>Var1\<close> and \<^verbatim>\<open>Freq\<close>.
\<close>

fun is_record :: "jsval \<Rightarrow> bool" where
  "is_record (JObj kvs) = (map_of kvs ''Var1'' \<noteq> None \<and> map_of kvs ''Freq'' \<noteq> None)"
| "is_record v = False"

subsection \<open>A payload without a field\<close>

text \<open>
  A parsed value has no field \<open>k\<close> when it is an object without the own property \<open>k\<close>,
  or no object at all (\<^verbatim>\<open>null\<close>, a number, a string, a boolean; an array has indices
  and no named fields of the data file).
\<close>

fun lacks :: "jsval \<Rightarrow> string \<Rightarrow> bool" where
  "lacks (JObj kvs) k = (map_of kvs k = None)"
| "lacks v k = True"

subsection \<open>The payloads the second callback accepts\<close>

text \<open>
  The parsed values on which lines 43 to 51 throw nothing: the read of
  \<^verbatim>\<open>accident_by_time\<close> succeeds (the payload is neither \<^verbatim>\<open>null\<close> nor \<^verbatim>\<open>undefined\<close>), and
  the value read is falsy, or an array none of whose elements is \<^verbatim>\<open>null\<close> or
  \<^verbatim>\<open>undefined\<close>.
\<close>

definition well_shaped :: "jsval \<Rightarrow> bool" where
  "well_shaped json =
     (case get_prop json ''accident_by_time'' of
        Inl e \<Rightarrow> False
      | Inr abt \<Rightarrow>
          if truthy abt then
            (case abt of
               JArr items \<Rightarrow> list_all (\<lambda>item. item \<noteq> JNull \<and> item \<noteq> JUndefined) items
             | _ \<Rightarrow> False)
          else True)"

section \<open>Properties\<close>

lemmas fetch_defs =
  fetch_effect_def check_response_def apply_json_def catch_handler_def
  load_state_of_def init_state_def

subsection \<open>The derived series\<close>

lemma map_items_length: "map_items xs = Inr ps \<Longrightarrow> length ps = length xs"
  by (induction xs arbitrary: ps) (auto split: sum.splits)

lemma map_items_records:
  "list_all is_record items \<Longrightarrow>
   \<exists>ps. map_items items = Inr ps \<and> length ps = length items \<and>
     (\<forall>i<length items. \<exists>kvs. items ! i = JObj kvs \<and>
        map_of kvs ''Var1'' = Some (time (ps ! i)) \<and>
        map_of kvs ''Freq'' = Some (accidents (ps ! i)))"
proof (induction items)
  case Nil
  then show ?case by simp
next
  case (Cons item rest)
  then obtain ps where ps: "map_items rest = Inr ps" "length ps = length rest"
    and nth: "\<forall>i<length rest. \<exists>kvs. rest ! i = JObj kvs \<and>
        map_of kvs ''Var1'' = Some (time (ps ! i)) \<and>
        map_of kvs ''Freq'' = Some (accidents (ps ! i))"
    by auto
  from Cons.prems obtain kvs v f where item: "item = JObj kvs"
    "map_of kvs ''Var1'' = Some v" "map_of kvs ''Freq'' = Some f"
    by (cases item) auto
  have "map_items (item # rest) = Inr (\<lparr>time = v, accidents = f\<rparr> # ps)"
    using ps item by simp
  moreover have "\<forall>i<length (item # rest). \<exists>kvs. (item # rest) ! i = JObj kvs \<and>
        map_of kvs ''Var1'' = Some (time ((\<lparr>time = v, accidents = f\<rparr> # ps) ! i)) \<and>
        map_of kvs ''Freq'' = Some (accidents ((\<lparr>time = v, accidents = f\<rparr> # ps) ! i))"
    using nth item by (auto simp: nth_Cons split: nat.splits)
  ultimately show ?case using ps by auto
qed

lemma error_message_nonempty: "error_message \<noteq> []"
  by (simp add: error_message_def)

lemma get_prop_Inl: "get_prop v k = Inl e \<longleftrightarrow> (v = JNull \<or> v = JUndefined) \<and> e = TypeError"
  by (cases v) auto

lemma check_response_Inr:
  "check_response res = Inr json \<longleftrightarrow> res = \<lparr>ok = True, json_body = Some json\<rparr>"
  by (cases res) (auto simp: check_response_def split: option.splits)

lemma map_items_ok:
  "(\<exists>ps. map_items xs = Inr ps) \<longleftrightarrow>
     list_all (\<lambda>item. item \<noteq> JNull \<and> item \<noteq> JUndefined) xs"
proof (induction xs)
  case Nil
  show ?case by simp
next
  case (Cons x xs)
  show ?case
  proof (cases "x = JNull \<or> x = JUndefined")
    case True
    then show ?thesis by auto
  next
    case False
    then obtain t f where "get_prop x ''Var1'' = Inr t" "get_prop x ''Freq'' = Inr f"
      by (cases x) auto
    with False Cons show ?thesis
      by (auto split: sum.splits)
  qed
qed

lemma call_map_ok:
  "(\<exists>ps. call_map v = Inr ps) \<longleftrightarrow>
     (case v of
        JArr items \<Rightarrow> list_all (\<lambda>item. item \<noteq> JNull \<and> item \<noteq> JUndefined) items
      | _ \<Rightarrow> False)"
  by (cases v) (simp_all add: map_items_ok)

text \<open>The second callback throws exactly on the payloads that are not well shaped.\<close>

lemma apply_json_well_shaped: "fst (apply_json json s) = None \<longleftrightarrow> well_shaped json"
proof (cases "get_prop json ''accident_by_time''")
  case (Inl e)
  then have "json = JNull \<or> json = JUndefined" by (simp add: get_prop_Inl)
  then show ?thesis by (auto simp: apply_json_def well_shaped_def)
next
  case (Inr abt)
  then obtain sm where sm: "get_prop json ''summary'' = Inr sm"
    by (cases json) auto
  show ?thesis
  proof (cases "truthy abt")
    case False
    with Inr sm show ?thesis by (simp add: apply_json_def well_shaped_def)
  next
    case True
    show ?thesis
    proof (cases "call_map abt")
      case (Inl e)
      with call_map_ok [of abt] have "\<not> (case abt of
          JArr items \<Rightarrow> list_all (\<lambda>item. item \<noteq> JNull \<and> item \<noteq> JUndefined) items
        | _ \<Rightarrow> False)"
        by simp
      with Inl Inr sm True show ?thesis
        by (simp add: apply_json_def well_shaped_def)
    next
      case r: (Inr ps)
      with call_map_ok [of abt] have "case abt of
          JArr items \<Rightarrow> list_all (\<lambda>item. item \<noteq> JNull \<and> item \<noteq> JUndefined) items
        | _ \<Rightarrow> False"
        by simp
      with r Inr sm True show ?thesis
        by (simp add: apply_json_def well_shaped_def)
    qed
  qed
qed

text \<open>What the second callback leaves of the state, when it throws and when it does not.\<close>

lemma apply_json_thrown:
  "apply_json json s = (Some e, s') \<Longrightarrow>
     data s' = data s \<and> loading s' = loading s \<and> error s' = error s \<and> theme s' = theme s"
  by (auto simp: apply_json_def Let_def split: sum.splits if_splits)

lemma apply_json_thrown_summary:
  "apply_json json s = (Some e, s') \<Longrightarrow>
     (json = JNull \<or> json = JUndefined) \<and> s' = s \<or>
     get_prop json ''summary'' = Inr (summary s')"
  by (cases json) (auto simp: apply_json_def Let_def split: sum.splits if_splits)

lemma apply_json_returned:
  "apply_json json s = (None, s') \<Longrightarrow>
     loading s' = False \<and> error s' = error s \<and> theme s' = theme s"
  by (auto simp: apply_json_def Let_def split: sum.splits if_splits)

text \<open>
  C1. A response that is OK and parses to a payload whose \<^verbatim>\<open>accident_by_time\<close> is an
  array of records with \<^verbatim>\<open>Var1\<close> and \<^verbatim>\<open>Freq\<close> takes the freshly mounted component to
  Ready, with the payload's \<^verbatim>\<open>summary\<close> and a series as long as the array, whose i-th
  element has the i-th record's \<^verbatim>\<open>Var1\<close> as \<^verbatim>\<open>time\<close> and its \<^verbatim>\<open>Freq\<close> as \<^verbatim>\<open>accidents\<close>.
\<close>

theorem series_of_accident_by_time:
  assumes "get_prop json ''accident_by_time'' = Inr (JArr items)"
    and "list_all is_record items"
  shows "\<exists>sm series.
     load_state_of
       (snd (fetch_effect (Resolved \<lparr>ok = True, json_body = Some json\<rparr>) (init_state t)))
       = Ready sm series \<and>
     get_prop json ''summary'' = Inr sm \<and>
     length series = length items \<and>
     (\<forall>i<length items. \<exists>kvs. items ! i = JObj kvs \<and>
        map_of kvs ''Var1'' = Some (time (series ! i)) \<and>
        map_of kvs ''Freq'' = Some (accidents (series ! i)))"
proof -
  from assms(1) obtain kvs where json: "json = JObj kvs"
    by (cases json) auto
  from map_items_records [OF assms(2)] obtain ps where ps: "map_items items = Inr ps"
    "length ps = length items"
    "\<forall>i<length items. \<exists>kvs. items ! i = JObj kvs \<and>
        map_of kvs ''Var1'' = Some (time (ps ! i)) \<and>
        map_of kvs ''Freq'' = Some (accidents (ps ! i))"
    by blast
  have "load_state_of
      (snd (fetch_effect (Resolved \<lparr>ok = True, json_body = Some json\<rparr>) (init_state t)))
       = Ready (case map_of kvs ''summary'' of None \<Rightarrow> JUndefined | Some v \<Rightarrow> v) ps"
    using assms(1) ps(1) json by (simp add: fetch_defs)
  then show ?thesis using ps json by auto
qed

theorem series_of_accident_by_time_witness:
  "get_prop
     (JObj [(''summary'', JObj [(''rowsLoaded'', JNum 100)]),
            (''accident_by_time'',
             JArr [JObj [(''Var1'', JStr ''Morning''), (''Freq'', JNum 10)],
                   JObj [(''Var1'', JStr ''Evening''), (''Freq'', JNum 25)]])])
     ''accident_by_time''
     = Inr (JArr [JObj [(''Var1'', JStr ''Morning''), (''Freq'', JNum 10)],
                  JObj [(''Var1'', JStr ''Evening''), (''Freq'', JNum 25)]]) \<and>
   list_all is_record
     [JObj [(''Var1'', JStr ''Morning''), (''Freq'', JNum 10)],
      JObj [(''Var1'', JStr ''Evening''), (''Freq'', JNum 25)]] \<and>
   (\<exists>sm series.
     load_state_of
       (snd (fetch_effect
          (Resolved \<lparr>ok = True, json_body = Some
             (JObj [(''summary'', JObj [(''rowsLoaded'', JNum 100)]),
                    (''accident_by_time'',
                     JArr [JObj [(''Var1'', JStr ''Morning''), (''Freq'', JNum 10)],
                           JObj [(''Var1'', JStr ''Evening''), (''Freq'', JNum 25)]])])\<rparr>)
          (init_state ''light'')))
       = Ready sm series \<and>
     sm = JObj [(''rowsLoaded'', JNum 100)] \<and>
     length series = 2 \<and>
     time (series ! 0) = JStr ''Morning'' \<and> accidents (series ! 0) = JNum 10 \<and>
     time (series ! 1) = JStr ''Evening'' \<and> accidents (series ! 1) = JNum 25)"
  (is "?H1 \<and> ?H2 \<and> ?C")
proof -
  have h1: ?H1 by simp
  have h2: ?H2 by simp
  from series_of_accident_by_time [OF h1 h2, of "''light''"]
  obtain sm series where r:
    "load_state_of
       (snd (fetch_effect
          (Resolved \<lparr>ok = True, json_body = Some
             (JObj [(''summary'', JObj [(''rowsLoaded'', JNum 100)]),
                    (''accident_by_time'',
                     JArr [JObj [(''Var1'', JStr ''Morning''), (''Freq'', JNum 10)],
                           JObj [(''Var1'', JStr ''Evening''), (''Freq'', JNum 25)]])])\<rparr>)
          (init_state ''light'')))
       = Ready sm series"
    "sm = JObj [(''rowsLoaded'', JNum 100)]"
    "length series = 2"
    "\<forall>i<2. \<exists>kvs.
        [JObj [(''Var1'', JStr ''Morning''), (''Freq'', JNum 10)],
         JObj [(''Var1'', JStr ''Evening''), (''Freq'', JNum 25)]] ! i = JObj kvs \<and>
        map_of kvs ''Var1'' = Some (time (series ! i)) \<and>
        map_of kvs ''Freq'' = Some (accidents (series ! i))"
    by auto
  from r(4) have "time (series ! 0) = JStr ''Morning'' \<and> accidents (series ! 0) = JNum 10"
    by (auto dest: spec [of _ 0])
  moreover from r(4) have
    "time (series ! 1) = JStr ''Evening'' \<and> accidents (series ! 1) = JNum 25"
    by (auto dest: spec [of _ 1])
  ultimately have ?C using r(1,2,3) by blast
  with h1 h2 show ?thesis by blast
qed

subsection \<open>Failures of the load\<close>

text \<open>
  C2. A response whose status is not OK leaves the component in the Error state with
  the fixed message, and the render shows that message, whatever the body would have
  parsed to and whatever the state was.
\<close>

theorem not_ok_gives_error:
  "load_state_of (snd (fetch_effect (Resolved \<lparr>ok = False, json_body = body\<rparr>) s))
     = Error error_message \<and>
   render (snd (fetch_effect (Resolved \<lparr>ok = False, json_body = body\<rparr>) s))
     = Inr (ErrorView error_message)"
  by (simp add: fetch_effect_def check_response_def catch_handler_def load_state_of_def
      render_def error_message_nonempty)

text \<open>
  C3. A body that does not parse leaves the component in the Error state with the same
  message, and in the very state a response that is not OK leaves it in: the two
  failures differ only in what went to the console.
\<close>

theorem parse_failure_same_as_http_failure:
  "load_state_of (snd (fetch_effect (Resolved \<lparr>ok = True, json_body = None\<rparr>) s))
     = Error error_message \<and>
   render (snd (fetch_effect (Resolved \<lparr>ok = True, json_body = None\<rparr>) s))
     = Inr (ErrorView error_message) \<and>
   snd (fetch_effect (Resolved \<lparr>ok = True, json_body = None\<rparr>) s) =
   snd (fetch_effect (Resolved \<lparr>ok = False, json_body = body\<rparr>) s)"
  by (simp add: fetch_effect_def check_response_def catch_handler_def load_state_of_def
      render_def error_message_nonempty)

subsection \<open>Payloads with parts missing\<close>

text \<open>
  C4, as the code has it. A parsed payload other than \<^verbatim>\<open>null\<close> that has no field
  \<^verbatim>\<open>accident_by_time\<close> takes the freshly mounted component to Ready, with what
  \<^verbatim>\<open>json.summary\<close> reads and the empty series. A body that parses to \<^verbatim>\<open>null\<close> takes it
  to Error with the fixed message: line 43 reads \<^verbatim>\<open>summary\<close> from \<^verbatim>\<open>null\<close> and throws.
  (No body parses to \<^verbatim>\<open>undefined\<close>; the value is left out with \<^verbatim>\<open>null\<close>.)
\<close>

theorem absent_accident_by_time:
  assumes "lacks json ''accident_by_time''" and "json \<noteq> JNull" and "json \<noteq> JUndefined"
  shows "\<exists>sm. get_prop json ''summary'' = Inr sm \<and>
    load_state_of
      (snd (fetch_effect (Resolved \<lparr>ok = True, json_body = Some json\<rparr>) (init_state t)))
      = Ready sm [] \<and>
    load_state_of
      (snd (fetch_effect (Resolved \<lparr>ok = True, json_body = Some JNull\<rparr>) (init_state t)))
      = Error error_message"
  using assms by (cases json) (simp_all add: fetch_defs error_message_nonempty)

theorem absent_accident_by_time_witness:
  "lacks (JObj [(''summary'', JObj [(''rowsLoaded'', JNum 100)])]) ''accident_by_time'' \<and>
   JObj [(''summary'', JObj [(''rowsLoaded'', JNum 100)])] \<noteq> JNull \<and>
   JObj [(''summary'', JObj [(''rowsLoaded'', JNum 100)])] \<noteq> JUndefined \<and>
   load_state_of
     (snd (fetch_effect
        (Resolved \<lparr>ok = True, json_body = Some
           (JObj [(''summary'', JObj [(''rowsLoaded'', JNum 100)])])\<rparr>)
        (init_state ''light'')))
     = Ready (JObj [(''rowsLoaded'', JNum 100)]) []"
  (is "?H1 \<and> ?H2 \<and> ?H3 \<and> ?C")
proof -
  have h1: ?H1 by simp
  have h2: ?H2 by simp
  have h3: ?H3 by simp
  from absent_accident_by_time [OF h1 h2 h3, of "''light''"] have ?C by auto
  with h1 h2 h3 show ?thesis by blast
qed

text \<open>
  The body \<^verbatim>\<open>null\<close> parses, has no field \<^verbatim>\<open>accident_by_time\<close>, and ends in Error.
\<close>

theorem null_payload_error_counterexample:
  "check_response \<lparr>ok = True, json_body = Some JNull\<rparr> = Inr JNull \<and>
   lacks JNull ''accident_by_time'' \<and>
   load_state_of
     (snd (fetch_effect (Resolved \<lparr>ok = True, json_body = Some JNull\<rparr>)
        (init_state ''light'')))
     = Error error_message"
  by (simp add: fetch_defs error_message_nonempty)

text \<open>
  A truthy \<^verbatim>\<open>summary\<close> without \<^verbatim>\<open>numericStats\<close> makes line 117 call \<^verbatim>\<open>Object.keys\<close> on
  \<^verbatim>\<open>undefined\<close>.
\<close>

lemma numeric_stats_absent:
  "truthy sm \<Longrightarrow> get_prop sm ''numericStats'' = Inr JUndefined \<Longrightarrow>
     numeric_stats sm = Inl TypeError"
  by (simp add: numeric_stats_def)

text \<open>A payload with no \<^verbatim>\<open>summary\<close> at all renders, with \<^verbatim>\<open>"-"\<close> on every card.\<close>

lemma render_without_summary:
  "render
     (snd (fetch_effect (Resolved \<lparr>ok = True, json_body = Some (JObj [])\<rparr>)
        (init_state ''light'')))
     = Inr (ReadyView \<lparr>cards = [JStr ''-'', JStr ''-'', JStr ''-'', JStr ''-''],
          numeric = Falsy JUndefined, chart_data = [], cell_fills = []\<rparr>)"
  by (simp add: fetch_defs render_def numeric_stats_def stat_card_def nullish_def pie_cells_def)

text \<open>
  C5. The response is OK and parses to \<^verbatim>\<open>{"summary": {"rowsLoaded": 100}}\<close>: a summary
  whose \<^verbatim>\<open>numericStats\<close> is absent. The state is Ready, and the render of that state
  throws a \<^verbatim>\<open>TypeError\<close> instead of showing placeholders.
\<close>

theorem summary_without_numericStats_throws:
  "load_state_of
     (snd (fetch_effect
        (Resolved \<lparr>ok = True, json_body = Some
           (JObj [(''summary'', JObj [(''rowsLoaded'', JNum 100)])])\<rparr>)
        (init_state ''light'')))
     = Ready (JObj [(''rowsLoaded'', JNum 100)]) [] \<and>
   render
     (snd (fetch_effect
        (Resolved \<lparr>ok = True, json_body = Some
           (JObj [(''summary'', JObj [(''rowsLoaded'', JNum 100)])])\<rparr>)
        (init_state ''light'')))
     = Inl TypeError"
  by (simp add: fetch_defs render_def numeric_stats_def)

subsection \<open>What an execution that ends in Error keeps\<close>

text \<open>
  C6, as the code has it. When the freshly mounted component ends in the Error state,
  the message is the fixed one, the render shows only it, and the series is still
  empty. The summary is still \<^verbatim>\<open>null\<close> when the fetch was rejected, the status was not
  OK, the body did not parse or parsed to \<^verbatim>\<open>null\<close>. When a payload parsed to another
  value and the callback threw later, \<^verbatim>\<open>setSummary\<close> had already run: the state holds
  the payload's \<^verbatim>\<open>summary\<close>.
\<close>

theorem error_discards_series:
  assumes "load_state_of (snd (fetch_effect r (init_state t))) = Error msg"
  shows "msg = error_message \<and>
    data (snd (fetch_effect r (init_state t))) = [] \<and>
    render (snd (fetch_effect r (init_state t))) = Inr (ErrorView error_message) \<and>
    (r = Rejected \<or>
     (\<exists>res. r = Resolved res \<and>
        (\<not> ok res \<or> json_body res = None \<or> json_body res = Some JNull))
       \<longrightarrow> summary (snd (fetch_effect r (init_state t))) = JNull) \<and>
    (\<forall>json. r = Resolved \<lparr>ok = True, json_body = Some json\<rparr> \<and>
        json \<noteq> JNull \<and> json \<noteq> JUndefined
       \<longrightarrow> get_prop json ''summary'' = Inr (summary (snd (fetch_effect r (init_state t)))))"
proof (cases r)
  case Rejected
  then show ?thesis using assms
    by (simp add: fetch_effect_def catch_handler_def load_state_of_def init_state_def
        render_def error_message_nonempty)
next
  case (Resolved res)
  show ?thesis
  proof (cases "check_response res")
    case (Inl e)
    then have "\<not> ok res \<or> json_body res = None"
      by (auto simp: check_response_def split: if_splits option.splits)
    then have "res \<noteq> \<lparr>ok = True, json_body = Some json\<rparr>" for json by auto
    with Inl Resolved assms show ?thesis
      by (simp add: fetch_effect_def catch_handler_def load_state_of_def init_state_def
          render_def error_message_nonempty)
  next
    case (Inr json)
    then have res: "res = \<lparr>ok = True, json_body = Some json\<rparr>"
      by (simp add: check_response_Inr)
    obtain eo s1 where a: "apply_json json (init_state t) = (eo, s1)"
      by (cases "apply_json json (init_state t)")
    show ?thesis
    proof (cases eo)
      case None
      with a have "loading s1 = False \<and> error s1 = []"
        by (auto dest: apply_json_returned simp: init_state_def)
      with None a Inr Resolved assms show ?thesis
        by (simp add: fetch_effect_def load_state_of_def)
    next
      case (Some e)
      with a have d: "data s1 = []"
        by (auto dest: apply_json_thrown simp: init_state_def)
      from Some a have sm: "(json = JNull \<or> json = JUndefined) \<and> s1 = init_state t \<or>
          get_prop json ''summary'' = Inr (summary s1)"
        by (auto dest: apply_json_thrown_summary)
      have s': "snd (fetch_effect r (init_state t)) =
          s1\<lparr>error := error_message, loading := False\<rparr>"
        using Some a Inr Resolved by (simp add: fetch_effect_def catch_handler_def)
      have nn: "json \<noteq> JNull \<and> json \<noteq> JUndefined \<Longrightarrow>
          get_prop json ''summary'' = Inr (summary s1)"
        using sm by auto
      have nl: "json = JNull \<Longrightarrow> summary s1 = JNull"
        using sm by (auto simp: init_state_def)
      from assms have m: "msg = error_message"
        unfolding s' by (simp add: load_state_of_def error_message_nonempty)
      have rd: "render (snd (fetch_effect r (init_state t))) = Inr (ErrorView error_message)"
        unfolding s' by (simp add: render_def error_message_nonempty)
      have dt: "data (snd (fetch_effect r (init_state t))) = []"
        unfolding s' using d by simp
      have su: "summary (snd (fetch_effect r (init_state t))) = summary s1"
        unfolding s' by simp
      show ?thesis
        unfolding su using m rd dt nn nl Resolved res by auto
    qed
  qed
qed

theorem error_discards_series_witness:
  "load_state_of
     (snd (fetch_effect
        (Resolved \<lparr>ok = False, json_body = Some
           (JObj [(''summary'', JObj [(''rowsLoaded'', JNum 100)]),
                  (''accident_by_time'',
                   JArr [JObj [(''Var1'', JStr ''Morning''), (''Freq'', JNum 10)]])])\<rparr>)
        (init_state ''light'')))
     = Error error_message \<and>
   data
     (snd (fetch_effect
        (Resolved \<lparr>ok = False, json_body = Some
           (JObj [(''summary'', JObj [(''rowsLoaded'', JNum 100)]),
                  (''accident_by_time'',
                   JArr [JObj [(''Var1'', JStr ''Morning''), (''Freq'', JNum 10)]])])\<rparr>)
        (init_state ''light'')))
     = [] \<and>
   summary
     (snd (fetch_effect
        (Resolved \<lparr>ok = False, json_body = Some
           (JObj [(''summary'', JObj [(''rowsLoaded'', JNum 100)]),
                  (''accident_by_time'',
                   JArr [JObj [(''Var1'', JStr ''Morning''), (''Freq'', JNum 10)]])])\<rparr>)
        (init_state ''light'')))
     = JNull"
  (is "?H \<and> ?D \<and> ?S")
proof -
  have h: ?H
    by (simp add: fetch_effect_def check_response_def catch_handler_def load_state_of_def
        error_message_nonempty)
  from error_discards_series [OF h] have "?D \<and> ?S" by simp
  with h show ?thesis by blast
qed

text \<open>
  The payload \<^verbatim>\<open>{"summary": {"rowsLoaded": 100}, "accident_by_time": {"Var1": "Morning",
  "Freq": 10}}\<close> (one record, not in an array) ends in Error, and the state, whose
  summary was \<^verbatim>\<open>null\<close> before the load, holds the payload's summary.
\<close>

theorem error_keeps_summary_counterexample:
  "load_state_of
     (snd (fetch_effect
        (Resolved \<lparr>ok = True, json_body = Some
           (JObj [(''summary'', JObj [(''rowsLoaded'', JNum 100)]),
                  (''accident_by_time'',
                   JObj [(''Var1'', JStr ''Morning''), (''Freq'', JNum 10)])])\<rparr>)
        (init_state ''light'')))
     = Error error_message \<and>
   summary (init_state ''light'') = JNull \<and>
   summary
     (snd (fetch_effect
        (Resolved \<lparr>ok = True, json_body = Some
           (JObj [(''summary'', JObj [(''rowsLoaded'', JNum 100)]),
                  (''accident_by_time'',
                   JObj [(''Var1'', JStr ''Morning''), (''Freq'', JNum 10)])])\<rparr>)
        (init_state ''light'')))
     = JObj [(''rowsLoaded'', JNum 100)]"
  by (simp add: fetch_defs error_message_nonempty)

subsection \<open>The transitions of the load state\<close>

lemma fetch_effect_loading: "loading (snd (fetch_effect r s)) = False"
proof (cases r)
  case Rejected
  then show ?thesis by (simp add: fetch_effect_def catch_handler_def)
next
  case (Resolved res)
  show ?thesis
  proof (cases "check_response res")
    case (Inl e)
    with Resolved show ?thesis by (simp add: fetch_effect_def catch_handler_def)
  next
    case (Inr json)
    obtain eo s1 where a: "apply_json json s = (eo, s1)"
      by (cases "apply_json json s")
    with Inr Resolved show ?thesis
      by (cases eo) (auto simp: fetch_effect_def catch_handler_def dest: apply_json_returned)
  qed
qed

lemma click_toggle_load_state:
  "load_state_of (fst (snd (click_toggle (s, b)))) = load_state_of s"
  by (simp add: click_toggle_def Let_def load_state_of_def split: prod.splits)

lemma fetch_effect_outcome:
  "load_state_of (snd (fetch_effect r (init_state t))) =
     (case r of
        Rejected \<Rightarrow> Error error_message
      | Resolved res \<Rightarrow>
          (case check_response res of
             Inl e \<Rightarrow> Error error_message
           | Inr json \<Rightarrow>
               if well_shaped json
               then Ready (summary (snd (apply_json json (init_state t))))
                          (data (snd (apply_json json (init_state t))))
               else Error error_message))"
proof (cases r)
  case Rejected
  then show ?thesis
    by (simp add: fetch_effect_def catch_handler_def load_state_of_def error_message_nonempty)
next
  case (Resolved res)
  show ?thesis
  proof (cases "check_response res")
    case (Inl e)
    with Resolved show ?thesis
      by (simp add: fetch_effect_def catch_handler_def load_state_of_def
          error_message_nonempty)
  next
    case (Inr json)
    obtain eo s1 where a: "apply_json json (init_state t) = (eo, s1)"
      by (cases "apply_json json (init_state t)")
    show ?thesis
    proof (cases eo)
      case None
      with a have w: "well_shaped json"
        using apply_json_well_shaped [of json "init_state t"] by simp
      from None a have "loading s1 = False \<and> error s1 = []"
        by (auto dest: apply_json_returned simp: init_state_def)
      with None a w Inr Resolved show ?thesis
        by (simp add: fetch_effect_def load_state_of_def)
    next
      case (Some e)
      with a have w: "\<not> well_shaped json"
        using apply_json_well_shaped [of json "init_state t"] by simp
      with Some a Inr Resolved show ?thesis
        by (simp add: fetch_effect_def catch_handler_def load_state_of_def
            error_message_nonempty)
    qed
  qed
qed

text \<open>
  C7, as the code has it. The freshly mounted component is Loading. Once the fetch has
  settled it is Ready when the response was OK, the body parsed and the payload is
  well shaped, and it is in Error with the fixed message in every other case: a
  rejected fetch, a status that is not OK, a body that does not parse, or a parsed
  payload on which the second callback throws. Whatever the state, a settled fetch
  never leaves it Loading, and a click on the theme button leaves the load state as
  it is. The three states are told apart by the two flags, one at a time.
\<close>

theorem load_state_transitions:
  "load_state_of (init_state t) = Loading \<and>
   (if \<exists>json. r = Resolved \<lparr>ok = True, json_body = Some json\<rparr> \<and> well_shaped json
    then \<exists>sm series. load_state_of (snd (fetch_effect r (init_state t))) = Ready sm series
    else load_state_of (snd (fetch_effect r (init_state t))) = Error error_message) \<and>
   load_state_of (snd (fetch_effect r s)) \<noteq> Loading \<and>
   load_state_of (fst (snd (click_toggle (s, b)))) = load_state_of s \<and>
   ((load_state_of s = Loading) = loading s) \<and>
   ((\<exists>m. load_state_of s = Error m) = (\<not> loading s \<and> error s \<noteq> [])) \<and>
   ((\<exists>sm series. load_state_of s = Ready sm series) = (\<not> loading s \<and> error s = []))"
proof -
  have a: "load_state_of (init_state t) = Loading"
    by (simp add: load_state_of_def init_state_def)
  have b: "if \<exists>json. r = Resolved \<lparr>ok = True, json_body = Some json\<rparr> \<and> well_shaped json
    then \<exists>sm series. load_state_of (snd (fetch_effect r (init_state t))) = Ready sm series
    else load_state_of (snd (fetch_effect r (init_state t))) = Error error_message"
  proof (cases r)
    case Rejected
    then show ?thesis by (simp add: fetch_effect_outcome)
  next
    case (Resolved res)
    show ?thesis
    proof (cases "check_response res")
      case (Inl e)
      then have "res \<noteq> \<lparr>ok = True, json_body = Some json\<rparr>" for json
        using check_response_Inr [of res json] by auto
      with Inl Resolved show ?thesis by (simp add: fetch_effect_outcome)
    next
      case (Inr json)
      then have "res = \<lparr>ok = True, json_body = Some json\<rparr>"
        by (simp add: check_response_Inr)
      with Inr Resolved show ?thesis by (simp add: fetch_effect_outcome)
    qed
  qed
  have c: "load_state_of (snd (fetch_effect r s)) \<noteq> Loading"
    using fetch_effect_loading [of r s] by (simp add: load_state_of_def)
  have d: "((load_state_of s = Loading) = loading s) \<and>
   ((\<exists>m. load_state_of s = Error m) = (\<not> loading s \<and> error s \<noteq> [])) \<and>
   ((\<exists>sm series. load_state_of s = Ready sm series) = (\<not> loading s \<and> error s = []))"
    by (simp add: load_state_of_def)
  from a b c d click_toggle_load_state [of s b] show ?thesis by blast
qed

theorem load_state_transitions_witness:
  "well_shaped (JObj [(''summary'', JObj [(''rowsLoaded'', JNum 100)])]) \<and>
   (\<exists>sm series.
      load_state_of
        (snd (fetch_effect
           (Resolved \<lparr>ok = True, json_body = Some
              (JObj [(''summary'', JObj [(''rowsLoaded'', JNum 100)])])\<rparr>)
           (init_state ''light'')))
        = Ready sm series) \<and>
   load_state_of
     (fst (snd (click_toggle
        (init_state ''light'',
         \<lparr>stored = Map.empty, read_fails = False, write_fails = False, dark_mode = False\<rparr>))))
     = Loading"
  (is "?W \<and> ?R \<and> ?T")
proof -
  have w: ?W by (simp add: well_shaped_def)
  have l: "load_state_of (init_state ''light'') = Loading"
    by (simp add: load_state_of_def init_state_def)
  from load_state_transitions
    [of "''light''"
        "Resolved \<lparr>ok = True, json_body = Some
           (JObj [(''summary'', JObj [(''rowsLoaded'', JNum 100)])])\<rparr>"
        "init_state ''light''"
        "\<lparr>stored = Map.empty, read_fails = False, write_fails = False, dark_mode = False\<rparr>"]
  have "?R \<and> ?T" using w l by simp
  with w show ?thesis by blast
qed

text \<open>
  The response is OK and its body parses, to \<^verbatim>\<open>{"summary": {"rowsLoaded": 100},
  "accident_by_time": {}}\<close>; the component goes from Loading to Error.
\<close>

theorem parsed_payload_error_counterexample:
  "check_response \<lparr>ok = True, json_body = Some
       (JObj [(''summary'', JObj [(''rowsLoaded'', JNum 100)]),
              (''accident_by_time'', JObj [])])\<rparr>
     = Inr (JObj [(''summary'', JObj [(''rowsLoaded'', JNum 100)]),
                  (''accident_by_time'', JObj [])]) \<and>
   load_state_of (init_state ''light'') = Loading \<and>
   load_state_of
     (snd (fetch_effect
        (Resolved \<lparr>ok = True, json_body = Some
           (JObj [(''summary'', JObj [(''rowsLoaded'', JNum 100)]),
                  (''accident_by_time'', JObj [])])\<rparr>)
        (init_state ''light'')))
     = Error error_message"
  by (simp add: fetch_defs error_message_nonempty)

subsection \<open>The theme and the store\<close>

text \<open>
  C8. In a browser that refuses every access to \<^verbatim>\<open>localStorage\<close>, the initialiser
  catches the failed read and the theme is \<^verbatim>\<open>light\<close>; the theme effect that follows
  the first render writes without a \<^verbatim>\<open>try\<close>, and its exception leaves the effect. So
  does the exception of the write after a click, in a browser that refuses writes.
\<close>

theorem storage_write_failure_escapes:
  "init_theme \<lparr>stored = Map.empty, read_fails = True, write_fails = True, dark_mode = False\<rparr>
     = ''light'' \<and>
   fst (mount \<lparr>stored = Map.empty, read_fails = True, write_fails = True, dark_mode = False\<rparr>)
     = Some StorageError \<and>
   fst (click_toggle (init_state ''light'',
          \<lparr>stored = Map.empty, read_fails = False, write_fails = True, dark_mode = False\<rparr>))
     = Some StorageError"
  by (simp add: init_theme_def getItem_def mount_def theme_effect_def setItem_def
      click_toggle_def toggleTheme_def init_state_def)

text \<open>The read side is swallowed: an unreadable or absent value gives \<^verbatim>\<open>light\<close>.\<close>

lemma init_theme_default:
  "read_fails b \<or> stored b ''theme'' = None \<Longrightarrow> init_theme b = ''light''"
  by (auto simp: init_theme_def getItem_def)

lemma toggleTheme_changes: "toggleTheme t \<noteq> t"
  by (simp add: toggleTheme_def)

lemma click_toggle_writable:
  "\<not> write_fails b \<Longrightarrow>
   click_toggle (s, b) =
     (None, s\<lparr>theme := toggleTheme (theme s)\<rparr>,
      b\<lparr>dark_mode := (toggleTheme (theme s) = ''dark''),
        stored := (stored b)(''theme'' \<mapsto> toggleTheme (theme s))\<rparr>)"
  using toggleTheme_changes [of "theme s"]
  by (simp add: click_toggle_def theme_effect_def setItem_def Let_def)

text \<open>
  C9. With the theme \<^verbatim>\<open>light\<close> or \<^verbatim>\<open>dark\<close> and a store that takes writes, two clicks
  bring the component's state back to what it was, and after each of the two clicks
  the store holds under \<^verbatim>\<open>theme\<close> the theme the state holds.
\<close>

theorem toggle_twice_persisted:
  assumes "theme s = ''light'' \<or> theme s = ''dark''" and "\<not> write_fails b"
  shows "toggleTheme (toggleTheme (theme s)) = theme s \<and>
    (\<exists>s1 b1 b2.
       click_toggle (s, b) = (None, s1, b1) \<and>
       stored b1 ''theme'' = Some (theme s1) \<and>
       click_toggle (s1, b1) = (None, s, b2) \<and>
       stored b2 ''theme'' = Some (theme s))"
proof -
  have tt: "toggleTheme (toggleTheme (theme s)) = theme s"
    using assms(1) by (auto simp: toggleTheme_def)
  let ?s1 = "s\<lparr>theme := toggleTheme (theme s)\<rparr>"
  let ?b1 = "b\<lparr>dark_mode := (toggleTheme (theme s) = ''dark''),
        stored := (stored b)(''theme'' \<mapsto> toggleTheme (theme s))\<rparr>"
  have c1: "click_toggle (s, b) = (None, ?s1, ?b1)"
    using assms(2) by (rule click_toggle_writable)
  have w1: "\<not> write_fails ?b1" using assms(2) by simp
  have c2: "click_toggle (?s1, ?b1) = (None, s,
      ?b1\<lparr>dark_mode := (theme s = ''dark''), stored := (stored ?b1)(''theme'' \<mapsto> theme s)\<rparr>)"
    using click_toggle_writable [OF w1, of ?s1] tt by simp
  have "stored ?b1 ''theme'' = Some (theme ?s1)" by simp
  with tt c1 c2 show ?thesis by auto
qed

theorem toggle_twice_persisted_witness:
  "(theme (init_state ''dark'') = ''light'' \<or> theme (init_state ''dark'') = ''dark'') \<and>
   \<not> write_fails
      \<lparr>stored = [''theme'' \<mapsto> ''dark''], read_fails = False, write_fails = False,
       dark_mode = True\<rparr> \<and>
   toggleTheme (toggleTheme ''dark'') = ''dark'' \<and>
   (\<exists>s1 b1 b2.
      click_toggle
        (init_state ''dark'',
         \<lparr>stored = [''theme'' \<mapsto> ''dark''], read_fails = False, write_fails = False,
          dark_mode = True\<rparr>)
        = (None, s1, b1) \<and>
      stored b1 ''theme'' = Some (theme s1) \<and>
      click_toggle (s1, b1) = (None, init_state ''dark'', b2) \<and>
      stored b2 ''theme'' = Some ''dark'')"
  (is "?H1 \<and> ?H2 \<and> ?C")
proof -
  have h1: ?H1 by (simp add: init_state_def)
  have h2: ?H2 by simp
  have t: "theme (init_state ''dark'') = ''dark''" by (simp add: init_state_def)
  from toggle_twice_persisted [OF h1 h2] have ?C unfolding t .
  with h1 h2 show ?thesis by blast
qed

text \<open>
  C10. The toggle sends \<^verbatim>\<open>light\<close> to \<^verbatim>\<open>dark\<close> and every other string to \<^verbatim>\<open>light\<close>, so
  its result is one of the two; after a click the theme of the state is \<^verbatim>\<open>light\<close> or
  \<^verbatim>\<open>dark\<close>, whatever theme the initialiser read from the store at startup.
\<close>

theorem toggle_lands_in_enum:
  "toggleTheme ''light'' = ''dark'' \<and>
   (t \<noteq> ''light'' \<longrightarrow> toggleTheme t = ''light'') \<and>
   toggleTheme t \<in> {''light'', ''dark''} \<and>
   theme (fst (snd (click_toggle (init_state (init_theme b0), b)))) \<in> {''light'', ''dark''}"
  by (simp add: toggleTheme_def click_toggle_def Let_def split: prod.splits)

theorem toggle_lands_in_enum_witness:
  "''banana'' \<noteq> ''light'' \<and>
   toggleTheme ''banana'' = ''light'' \<and>
   init_theme
     \<lparr>stored = [''theme'' \<mapsto> ''banana''], read_fails = False, write_fails = False,
      dark_mode = False\<rparr>
     = ''banana'' \<and>
   theme (fst (snd (click_toggle
     (init_state
        (init_theme
           \<lparr>stored = [''theme'' \<mapsto> ''banana''], read_fails = False, write_fails = False,
            dark_mode = False\<rparr>),
      \<lparr>stored = [''theme'' \<mapsto> ''banana''], read_fails = False, write_fails = False,
       dark_mode = False\<rparr>))))
     \<in> {''light'', ''dark''}"
  (is "?H \<and> ?T \<and> ?I \<and> ?C")
proof -
  have h: ?H by simp
  have i: ?I by (simp add: init_theme_def getItem_def)
  from toggle_lands_in_enum
    [of "''banana''"
        "\<lparr>stored = [''theme'' \<mapsto> ''banana''], read_fails = False, write_fails = False,
          dark_mode = False\<rparr>"
        "\<lparr>stored = [''theme'' \<mapsto> ''banana''], read_fails = False, write_fails = False,
          dark_mode = False\<rparr>"]
  have "?T \<and> ?C" using h by blast
  with h i show ?thesis by blast
qed

end
